theory Spec2Isabelle
  imports Complex_Main "HOL-Library.Multiset"
begin

section \<open>The seed task of dbt: core/dbt/task/seed.py\<close>

text \<open>
  The module defines two classes: \<open>SeedRunner\<close> (the per-node lifecycle of a seed) and
  \<open>SeedTask\<close> (selection, policies and the end-of-run step). Classes are records,
  enumerations are datatypes, an exception is the \<open>Inl\<close> of a sum or the \<open>Some\<close> of an
  optional exception, and what a method writes (the event sink, standard output, the
  random generator) is threaded through a record \<open>World\<close>. A method that assigns to
  nothing is a function of its receiver and arguments only.
\<close>

subsection \<open>Data the module receives\<close>

text \<open>
  \<open>dbt.node_types.NodeType\<close> is not part of this module; the module names \<open>Seed\<close> only.
  Every other resource type is \<open>OtherType\<close> with its name.
\<close>

datatype NodeType = Seed | OtherType string

text \<open>
  \<open>NodeStatus\<close> and \<open>RunStatus\<close> come from \<open>dbt.contracts.results\<close>. The module compares a
  result's status with \<open>NodeStatus.Error\<close> (line 55) and with \<open>RunStatus.Error\<close> (line 125);
  the result model has one status with the variants Success, Error and Skipped, so both
  names denote the constructor \<open>Error\<close> here.
\<close>

datatype NodeStatus = Success | Error | Skipped

text \<open>\<open>EventLevel\<close>: the module names \<open>ERROR\<close> and \<open>INFO\<close>; the other levels are never produced by it.\<close>

datatype EventLevel = DEBUG | INFO | WARN | ERROR

text \<open>
  The exceptions of the model: the one the module raises itself, Python's
  AttributeError, and \<open>AsciiArtError\<close> for whatever \<open>requests.get\<close> or \<open>run_cmd\<close> raise
  inside \<open>draw_asciiart\<close>.
\<close>

datatype exn = DbtInternalError string | AttributeError | AsciiArtError

type_synonym NodeInfo = "(string \<times> string) list"

record ResourceNode =
  unique_id :: string
  resource_type :: NodeType
  alias_name :: string
  schema :: string
  node_info :: NodeInfo

text \<open>An agate table: its column names and its rows, a row being the list of its cells.\<close>

type_synonym Row = "string list"

record AgateTable =
  column_names :: "string list"
  rows :: "Row list"

text \<open>
  What \<open>print_table\<close> writes for a table: the line of column names, one line per row
  shown, and after them a line of ellipses when rows were left out.
\<close>

record PrintedTable =
  header_cells :: "string list"
  body :: "Row list"
  overflow_row :: "Row option"

text \<open>
  The result object of one node. \<open>agate_table\<close> is the attribute that
  \<open>_build_run_model_result\<close> assigns; \<open>None\<close> is a result that carries no table.
  \<open>execution_time\<close> is a number of seconds.
\<close>

record RunResult =
  node :: ResourceNode
  status :: NodeStatus
  message :: string
  execution_time :: rat
  agate_table :: "AgateTable option"

text \<open>What \<open>context["load_result"](name)\<close> returns when a result of that name was stored.\<close>

record AgateResult =
  response :: string
  table :: AgateTable

text \<open>
  The execution context is a dictionary; the module reads its entry \<open>load_result\<close>, a
  callable from a name to the stored result, or to Python's \<open>None\<close>.
\<close>

record Context =
  load_result :: "string \<Rightarrow> AgateResult option"

record Graph =
  nodes :: "ResourceNode list"
  edges :: "(string \<times> string) list"

datatype Manifest = Manifest "(string \<times> ResourceNode) list"

datatype PreviousState = PreviousState "ResourceNode list"

datatype Adapter = Adapter string

text \<open>
  The task's arguments. The module reads \<open>args.destiny\<close>, \<open>args.freedom\<close> and \<open>args.show\<close>.
  Modelled from the spec: the argument class is not part of this module, and section 6
  of the specification names a flag for whether fail-fast is enabled among the task's
  arguments; it is \<open>arg_fail_fast\<close>.
\<close>

record Args =
  arg_destiny :: bool
  arg_freedom :: bool
  arg_show :: bool
  arg_fail_fast :: bool

record SeedTask =
  args :: Args
  manifest :: "Manifest option"
  graph :: "Graph option"
  previous_state :: "PreviousState option"

text \<open>The runner's attributes read by the module: \<open>self.node\<close>, \<open>self.node_index\<close>, \<open>self.num_nodes\<close>.\<close>

record SeedRunner =
  self_node :: ResourceNode
  node_index :: nat
  num_nodes :: nat

text \<open>The keyword arguments of \<open>ResourceTypeSelector(...)\<close>.\<close>

record ResourceTypeSelector =
  sel_graph :: Graph
  sel_manifest :: Manifest
  sel_previous_state :: "PreviousState option"
  resource_types :: "NodeType list"

subsection \<open>Events and output\<close>

record LogSeedResult_fields =
  lsr_status :: NodeStatus
  lsr_result_message :: string
  lsr_index :: nat
  lsr_total :: nat
  lsr_execution_time :: rat
  lsr_schema :: string
  lsr_relation :: string
  lsr_node_info :: NodeInfo

record RunSummary_fields =
  n_success :: nat
  n_error :: nat
  n_skipped :: nat
  elapsed :: rat

datatype Event =
    SeedHeader string
  | Formatting string
  | LogSeedResult LogSeedResult_fields
  | RunEndSummary RunSummary_fields

text \<open>
  One entry per thing written: an event fired (inside \<open>with TextOnly()\<close> or not, with the
  \<open>level\<close> keyword when the call passes one), a table printed by \<open>print_table\<close>, a
  typing animation (texts, highlight colour, draw interval) and an ASCII-art drawing
  (URL, parameters of img2txt). What the last two put on the terminal, the pauses and
  the download are outside the model; the entry records the call and its arguments.
\<close>

datatype Output =
    Fired bool "EventLevel option" Event
  | PrintTable PrintedTable
  | TypingAnimation "string list" nat rat
  | AsciiArt string "string list"

text \<open>
  \<open>out\<close> is everything written so far, oldest first; \<open>draws\<close> counts the calls of
  \<open>random.random()\<close> so far. The generator itself is a parameter \<open>rnd\<close> of the functions
  that draw: \<open>rnd k\<close> is the value of call number \<open>k\<close>.
\<close>

record World =
  out :: "Output list"
  draws :: nat

definition fire_event :: "bool \<Rightarrow> Event \<Rightarrow> EventLevel option \<Rightarrow> World \<Rightarrow> World" where
  "fire_event text_only e lvl w = w\<lparr>out := out w @ [Fired text_only lvl e]\<rparr>"

subsection \<open>SeedRunner\<close>

text \<open>
  \<open>_build_run_model_result\<close> (lines 44 to 48). The base class's builder is not part of
  this module and is the parameter \<open>super_build\<close>; an exception it raises propagates.
  \<open>agate_result.table\<close> on Python's \<open>None\<close> raises AttributeError.
\<close>

definition build_run_model_result ::
  "(ResourceNode \<Rightarrow> Context \<Rightarrow> exn + RunResult) \<Rightarrow> ResourceNode \<Rightarrow> Context \<Rightarrow> exn + RunResult" where
  "build_run_model_result super_build model ctx =
     (case super_build model ctx of
        Inl e \<Rightarrow> Inl e
      | Inr result \<Rightarrow>
          (case load_result ctx ''agate_table'' of
             None \<Rightarrow> Inl AttributeError
           | Some agate_result \<Rightarrow> Inr (result\<lparr>agate_table := Some (table agate_result)\<rparr>)))"

text \<open>\<open>compile\<close> (lines 50 to 51).\<close>

definition compile :: "SeedRunner \<Rightarrow> Manifest \<Rightarrow> ResourceNode" where
  "compile self m = self_node self"

text \<open>\<open>print_result_line\<close> (lines 53 to 68).\<close>

definition print_result_line :: "SeedRunner \<Rightarrow> RunResult \<Rightarrow> World \<Rightarrow> World" where
  "print_result_line self result w =
     (let model = node result;
          level = (if status result = Error then ERROR else INFO)
      in fire_event False
           (LogSeedResult \<lparr>
              lsr_status = status result,
              lsr_result_message = message result,
              lsr_index = node_index self,
              lsr_total = num_nodes self,
              lsr_execution_time = execution_time result,
              lsr_schema = schema (self_node self),
              lsr_relation = alias_name model,
              lsr_node_info = node_info model\<rparr>)
           (Some level) w)"

subsection \<open>SeedTask: policies and selection\<close>

text \<open>
  \<open>defer_to_manifest\<close> (lines 72 to 74) returns nothing; it is modelled by what a call
  could change: the task and the world.
\<close>

definition defer_to_manifest :: "SeedTask \<Rightarrow> Adapter \<Rightarrow> string list \<Rightarrow> World \<Rightarrow> SeedTask \<times> World" where
  "defer_to_manifest self adapter selected_uids w = (self, w)"

text \<open>\<open>raise_on_first_error\<close> (lines 76 to 77).\<close>

definition raise_on_first_error :: "SeedTask \<Rightarrow> bool" where
  "raise_on_first_error self = False"

text \<open>\<open>get_node_selector\<close> (lines 79 to 87).\<close>

definition get_node_selector :: "SeedTask \<Rightarrow> exn + ResourceTypeSelector" where
  "get_node_selector self =
     (if manifest self = None \<or> graph self = None
      then Inl (DbtInternalError ''manifest and graph must be set to get perform node selection'')
      else Inr \<lparr>sel_graph = the (graph self),
                sel_manifest = the (manifest self),
                sel_previous_state = previous_state self,
                resource_types = [Seed]\<rparr>)"

text \<open>
  Modelled from the spec: \<open>ResourceTypeSelector\<close> is imported from \<open>dbt.graph\<close> and its
  selection is not part of this module. Section 4.1 of the specification: selection
  filters the full node set down to the nodes whose declared type is in the criteria's
  resource types, in the order the graph provides, and for this resource type uses the
  fresh node, never a previous-state stand-in.
\<close>

definition select :: "ResourceTypeSelector \<Rightarrow> ResourceNode list" where
  "select sel = filter (\<lambda>n. resource_type n \<in> set (resource_types sel)) (nodes (sel_graph sel))"

subsection \<open>SeedTask: the sampling hook\<close>

text \<open>
  The two methods of agate tables that \<open>show_table\<close> calls. agate is a library outside
  the repository; the methods are modelled by their documented meaning, which is what
  section 4.4 of the specification relies on (a bounded sample: a fixed maximum row
  count, an unbounded column count). A cell is the text \<open>print_table\<close> formats for the
  value, and a row has one cell per column.

  \<open>order_by\<close> with a key function sorts the rows by their keys, rows of equal keys
  keeping their order, and calls the key function once per row in row order; \<open>keys\<close>
  are the values those calls returned.

  \<open>print_table\<close> is called with \<open>max_rows\<close> and \<open>max_columns\<close>; its \<open>max_column_width\<close>
  keeps the default 20. A column name or a cell longer than 20 characters is cut to
  its first 17 characters followed by three dots. The first \<open>max_rows\<close> rows are
  written, and when the table has more a last line with an ellipsis in every column.
  With \<open>max_columns = None\<close> every column is written; with a number, the first that
  many, and an ellipsis column after them when columns were left out.
\<close>

definition order_by :: "rat list \<Rightarrow> AgateTable \<Rightarrow> AgateTable" where
  "order_by keys t = t\<lparr>rows := map snd (sort_key fst (zip keys (rows t)))\<rparr>"

definition ellipsis :: string where
  "ellipsis = ''...''"

definition default_max_column_width :: nat where
  "default_max_column_width = 20"

definition truncate_text :: "string \<Rightarrow> string" where
  "truncate_text v =
     (if length v > default_max_column_width
      then take (default_max_column_width - 3) v @ ''...''
      else v)"

definition render_table :: "nat \<Rightarrow> nat option \<Rightarrow> AgateTable \<Rightarrow> PrintedTable" where
  "render_table max_rows max_columns t =
     (let names =
            (case max_columns of
               None \<Rightarrow> map truncate_text (column_names t)
             | Some c \<Rightarrow> map truncate_text (take c (column_names t))
                          @ (if c < length (column_names t) then [ellipsis] else []));
          format_row =
            (case max_columns of
               None \<Rightarrow> map truncate_text
             | Some c \<Rightarrow> (\<lambda>row. map truncate_text (take c row)
                                  @ (if c < length row then [ellipsis] else [])))
      in \<lparr>header_cells = names,
          body = map format_row (take max_rows (rows t)),
          overflow_row = (if max_rows < length (rows t)
                          then Some (map (\<lambda>n. ellipsis) names) else None)\<rparr>)"

definition print_table :: "nat \<Rightarrow> nat option \<Rightarrow> AgateTable \<Rightarrow> World \<Rightarrow> World" where
  "print_table max_rows max_columns t w =
     w\<lparr>out := out w @ [PrintTable (render_table max_rows max_columns t)]\<rparr>"

text \<open>The header of \<open>show_table\<close> (lines 110 to 113).\<close>

definition sample_header :: "RunResult \<Rightarrow> string" where
  "sample_header result =
     ''Random sample of table: '' @ schema (node result) @ ''.'' @ alias_name (node result)"

text \<open>
  \<open>show_table\<close> (lines 106 to 121). A result without a table raises at
  \<open>table.order_by\<close>, before anything is written or drawn.
\<close>

definition show_table :: "(nat \<Rightarrow> rat) \<Rightarrow> RunResult \<Rightarrow> World \<Rightarrow> exn + World" where
  "show_table rnd result w =
     (case agate_table result of
        None \<Rightarrow> Inl AttributeError
      | Some tbl \<Rightarrow>
          (let keys = map rnd [draws w ..< draws w + length (rows tbl)];
               rand_table = order_by keys tbl;
               w1 = w\<lparr>draws := draws w + length (rows tbl)\<rparr>;
               header = sample_header result;
               w2 = fire_event True (Formatting []) None w1;
               w3 = fire_event False (SeedHeader header) None w2;
               w4 = fire_event False (Formatting (replicate (length header) (CHR ''-''))) None w3;
               w5 = print_table 10 None rand_table w4
           in Inr (fire_event True (Formatting []) None w5)))"

text \<open>
  \<open>show_tables\<close> (lines 123 to 126): the loop over the results. An exception of
  \<open>show_table\<close> ends the loop; what earlier iterations wrote stays written.
\<close>

fun show_tables :: "(nat \<Rightarrow> rat) \<Rightarrow> RunResult list \<Rightarrow> World \<Rightarrow> exn option \<times> World" where
  "show_tables rnd [] w = (None, w)"
| "show_tables rnd (result # results) w =
     (if status result \<noteq> Error
      then (case show_table rnd result w of
              Inl e \<Rightarrow> (Some e, w)
            | Inr w' \<Rightarrow> show_tables rnd results w')
      else show_tables rnd results w)"

subsection \<open>SeedTask: the end of the run\<close>

text \<open>
  \<open>text_typing_animation\<close> (lines 128 to 164) writes to the terminal only; a call is
  one entry of the output.
\<close>

definition text_typing_animation :: "string list \<Rightarrow> nat \<Rightarrow> rat \<Rightarrow> World \<Rightarrow> World" where
  "text_typing_animation texts highlight_color draw_interval w =
     w\<lparr>out := out w @ [TypingAnimation texts highlight_color draw_interval]\<rparr>"

definition default_draw_interval :: rat where
  "default_draw_interval = 8 / 100"

text \<open>
  \<open>draw_asciiart\<close> (lines 166 to 190) downloads the image, runs img2txt on it and then
  prints. The download and the process can raise (no connection, no img2txt), and do
  so before anything is printed; \<open>fails url\<close> says whether they raise for this URL.
\<close>

definition draw_asciiart ::
  "(string \<Rightarrow> bool) \<Rightarrow> string \<Rightarrow> string list \<Rightarrow> World \<Rightarrow> exn option \<times> World" where
  "draw_asciiart fails url img2txt_params w =
     (if fails url then (Some AsciiArtError, w)
      else (None, w\<lparr>out := out w @ [AsciiArt url img2txt_params]\<rparr>))"


definition freedom_url :: string where
  "freedom_url = ''https://www.gundam-seed.net/freedom/assets/img/common/logo/logo.png''"


definition freedom_texts :: "string list" where
  "freedom_texts =
     [''GENERATION'', ''UNRESTRICTED'', ''NETWORK'', ''DRIVE'', ''ASSAULT'', ''MODULE'',
      ''        COMPLEX'']"


text \<open>
  \<open>freedom\<close> (lines 209 to 227). An exception of \<open>draw_asciiart\<close> propagates, so the
  second animation is not reached.
\<close>

definition freedom :: "(string \<Rightarrow> bool) \<Rightarrow> World \<Rightarrow> exn option \<times> World" where
  "freedom fails w =
     (case draw_asciiart fails freedom_url [''-W'', ''152'']
             (text_typing_animation freedom_texts 1 default_draw_interval w) of
        (Some e, w') \<Rightarrow> (Some e, w')
      | (None, w') \<Rightarrow>
          (None, text_typing_animation [''2024 1.26 [Fri] ROAD SHOW''] 3 default_draw_interval w'))"

text \<open>
  Modelled from the spec: \<open>print_run_end_messages\<close> is imported from the module
  \<open>printer\<close>, which is not part of this module. Section 4.3 of the specification: the
  standard summary carries the counts of success, error and skip, and the total elapsed
  time; the elapsed time of a run is taken as the sum of its results' execution times.
\<close>

definition run_summary :: "RunResult list \<Rightarrow> RunSummary_fields" where
  "run_summary results =
     \<lparr>n_success = length (filter (\<lambda>r. status r = Success) results),
      n_error = length (filter (\<lambda>r. status r = Error) results),
      n_skipped = length (filter (\<lambda>r. status r = Skipped) results),
      elapsed = sum_list (map execution_time results)\<rparr>"



subsection \<open>Reading the output\<close>









text \<open>
  What \<open>show_table\<close> writes for one result, given its header and the table that
  \<open>print_table\<close> rendered: an empty line, the header, a rule of the header's length, the
  table, an empty line.
\<close>

definition sample_block :: "string \<Rightarrow> PrintedTable \<Rightarrow> Output list" where
  "sample_block header t =
     [Fired True None (Formatting []),
      Fired False None (SeedHeader header),
      Fired False None (Formatting (replicate (length header) (CHR ''-''))),
      PrintTable t,
      Fired True None (Formatting [])]"


subsection \<open>Concrete inputs\<close>

definition seed_countries :: ResourceNode where
  "seed_countries =
     \<lparr>unique_id = ''seed.shop.country_codes'', resource_type = Seed,
      alias_name = ''country_codes'', schema = ''raw'', node_info = []\<rparr>"

definition seed_currencies :: ResourceNode where
  "seed_currencies =
     \<lparr>unique_id = ''seed.shop.currencies'', resource_type = Seed,
      alias_name = ''currencies'', schema = ''raw'', node_info = []\<rparr>"

definition model_orders :: ResourceNode where
  "model_orders =
     \<lparr>unique_id = ''model.shop.orders'', resource_type = OtherType ''model'',
      alias_name = ''orders'', schema = ''analytics'', node_info = []\<rparr>"

definition shop_graph :: Graph where
  "shop_graph =
     \<lparr>nodes = [seed_countries, model_orders, seed_currencies],
      edges = [(''seed.shop.country_codes'', ''model.shop.orders'')]\<rparr>"

definition shop_manifest :: Manifest where
  "shop_manifest =
     Manifest [(''seed.shop.country_codes'', seed_countries),
               (''model.shop.orders'', model_orders),
               (''seed.shop.currencies'', seed_currencies)]"

definition plain_args :: Args where
  "plain_args =
     \<lparr>arg_destiny = False, arg_freedom = False, arg_show = False, arg_fail_fast = False\<rparr>"

definition task_ready :: SeedTask where
  "task_ready =
     \<lparr>args = plain_args, manifest = Some shop_manifest, graph = Some shop_graph,
      previous_state = None\<rparr>"

definition task_unset :: SeedTask where
  "task_unset =
     \<lparr>args = plain_args, manifest = Some shop_manifest, graph = None, previous_state = None\<rparr>"

definition runner_countries :: SeedRunner where
  "runner_countries = \<lparr>self_node = seed_countries, node_index = 1, num_nodes = 2\<rparr>"

text \<open>A table of twelve rows, a table of no rows.\<close>

definition table12 :: AgateTable where
  "table12 =
     \<lparr>column_names = [''code'', ''name''],
      rows = map (\<lambda>i. [[char_of (65 + i)], ''x'']) [0 ..< 12]\<rparr>"


definition result_countries :: RunResult where
  "result_countries =
     \<lparr>node = seed_countries, status = Success, message = ''INSERT 12'',
      execution_time = 1 / 2, agate_table = Some table12\<rparr>"


definition result_failed :: RunResult where
  "result_failed =
     \<lparr>node = seed_currencies, status = Error, message = ''ConnectionLost'',
      execution_time = 0, agate_table = None\<rparr>"

definition result_skipped :: RunResult where
  "result_skipped =
     \<lparr>node = seed_currencies, status = Skipped, message = ''SKIP'',
      execution_time = 0, agate_table = None\<rparr>"

definition world0 :: World where
  "world0 = \<lparr>out = [], draws = 0\<rparr>"

definition rnd0 :: "nat \<Rightarrow> rat" where
  "rnd0 k = of_nat ((7 * k + 3) mod 11) / 11"

definition base_build :: "ResourceNode \<Rightarrow> Context \<Rightarrow> exn + RunResult" where
  "base_build model ctx =
     Inr \<lparr>node = model, status = Success, message = ''INSERT 12'', execution_time = 1 / 2,
          agate_table = None\<rparr>"

definition loaded_context :: Context where
  "loaded_context =
     \<lparr>load_result = (\<lambda>name. if name = ''agate_table''
                                then Some \<lparr>response = ''INSERT 12'', table = table12\<rparr>
                                else None)\<rparr>"

definition task_fail_fast :: SeedTask where
  "task_fail_fast = task_ready\<lparr>args := plain_args\<lparr>arg_fail_fast := True\<rparr>\<rparr>"







section \<open>Properties\<close>

subsection \<open>Selection\<close>

text \<open>
  Claim C1. \<open>get_node_selector\<close> raises the internal error "manifest and graph must be
  set to get perform node selection" exactly when the task's manifest or its graph is
  \<open>None\<close>, and returns a selector exactly when both are set. The error is the whole
  result: no selector is built and nothing is selected on that path.
\<close>

theorem get_node_selector_precondition:
  "(get_node_selector self =
      Inl (DbtInternalError ''manifest and graph must be set to get perform node selection''))
     = (manifest self = None \<or> graph self = None)
   \<and> (\<exists>sel. get_node_selector self = Inr sel) = (manifest self \<noteq> None \<and> graph self \<noteq> None)"
  by (simp add: get_node_selector_def)

theorem get_node_selector_precondition_witness:
  "get_node_selector task_unset =
      Inl (DbtInternalError ''manifest and graph must be set to get perform node selection'')
   \<and> (\<exists>sel. get_node_selector task_ready = Inr sel)"
  using get_node_selector_precondition [of task_unset]
        get_node_selector_precondition [of task_ready]
  by (simp add: task_unset_def task_ready_def)

text \<open>
  Claim C2. With manifest and graph set, the selector that \<open>get_node_selector\<close> returns
  selects exactly the nodes of the graph whose resource type is \<open>Seed\<close>, in the graph's
  order: all of them, as many as there are, and no node of another type.
\<close>

theorem select_seed_only:
  assumes "manifest self = Some m" and "graph self = Some g"
  shows "\<exists>sel. get_node_selector self = Inr sel
           \<and> select sel = filter (\<lambda>n. resource_type n = Seed) (nodes g)
           \<and> set (select sel) = {n \<in> set (nodes g). resource_type n = Seed}
           \<and> length (select sel) = length (filter (\<lambda>n. resource_type n = Seed) (nodes g))"
  using assms by (simp add: get_node_selector_def select_def)

theorem select_seed_only_witness:
  "\<exists>sel. get_node_selector task_ready = Inr sel
       \<and> select sel = [seed_countries, seed_currencies]"
proof -
  have both: "manifest task_ready = Some shop_manifest" "graph task_ready = Some shop_graph"
    by (simp_all add: task_ready_def)
  from select_seed_only [OF both] obtain sel where
    sel: "get_node_selector task_ready = Inr sel"
         "select sel = filter (\<lambda>n. resource_type n = Seed) (nodes shop_graph)"
    by blast
  have "filter (\<lambda>n. resource_type n = Seed) (nodes shop_graph) = [seed_countries, seed_currencies]"
    by (simp add: shop_graph_def seed_countries_def seed_currencies_def model_orders_def)
  with sel show ?thesis by simp
qed

subsection \<open>The runner\<close>

text \<open>
  Claim C3. \<open>compile\<close> returns the runner's own node, whatever the manifest: the value
  returned is \<open>self.node\<close> itself, and the method has no other result.
\<close>

theorem compile_identity: "compile self m = self_node self"
  by (simp add: compile_def)

theorem compile_identity_witness: "compile runner_countries shop_manifest = seed_countries"
  using compile_identity [of runner_countries shop_manifest]
  by (simp add: runner_countries_def)

text \<open>
  Claim C6. \<open>print_result_line\<close> appends exactly one entry to the output, a
  \<open>LogSeedResult\<close> event fired with an explicit level; the level is \<open>ERROR\<close> if and
  only if the result's status is \<open>Error\<close>, and \<open>INFO\<close> for every other status. The event
  carries the result's status, message and execution time, the runner's index and
  total, the schema of the runner's node and the alias of the result's node. Nothing
  else of the world changes.
\<close>

theorem print_result_line_level:
  "\<exists>lvl fields.
      print_result_line self result w =
        w\<lparr>out := out w @ [Fired False (Some lvl) (LogSeedResult fields)]\<rparr>
    \<and> (lvl = ERROR) = (status result = Error)
    \<and> (lvl = INFO) = (status result \<noteq> Error)
    \<and> lsr_status fields = status result
    \<and> lsr_result_message fields = message result
    \<and> lsr_execution_time fields = execution_time result
    \<and> lsr_index fields = node_index self
    \<and> lsr_total fields = num_nodes self
    \<and> lsr_schema fields = schema (self_node self)
    \<and> lsr_relation fields = alias_name (node result)"
proof (intro exI conjI)
  show "print_result_line self result w =
          w\<lparr>out := out w @ [Fired False (Some (if status result = Error then ERROR else INFO))
            (LogSeedResult \<lparr>
              lsr_status = status result,
              lsr_result_message = message result,
              lsr_index = node_index self,
              lsr_total = num_nodes self,
              lsr_execution_time = execution_time result,
              lsr_schema = schema (self_node self),
              lsr_relation = alias_name (node result),
              lsr_node_info = node_info (node result)\<rparr>)]\<rparr>"
    by (simp add: print_result_line_def Let_def fire_event_def)
qed simp_all

theorem print_result_line_level_witness:
  "(\<exists>fields. out (print_result_line runner_countries result_failed world0)
        = [Fired False (Some ERROR) (LogSeedResult fields)])
   \<and> (\<exists>fields. out (print_result_line runner_countries result_countries world0)
        = [Fired False (Some INFO) (LogSeedResult fields)])
   \<and> (\<exists>fields. out (print_result_line runner_countries result_skipped world0)
        = [Fired False (Some INFO) (LogSeedResult fields)])"
proof -
  have st: "status result_failed = Error" "status result_countries \<noteq> Error"
    "status result_skipped \<noteq> Error"
    by (simp_all add: result_failed_def result_countries_def result_skipped_def)
  have nil: "out world0 = []" by (simp add: world0_def)
  from print_result_line_level [of runner_countries result_failed world0] st nil
  have 1: "\<exists>fields. out (print_result_line runner_countries result_failed world0)
        = [Fired False (Some ERROR) (LogSeedResult fields)]"
    by auto
  from print_result_line_level [of runner_countries result_countries world0] st nil
  have 2: "\<exists>fields. out (print_result_line runner_countries result_countries world0)
        = [Fired False (Some INFO) (LogSeedResult fields)]"
    by auto
  from print_result_line_level [of runner_countries result_skipped world0] st nil
  have 3: "\<exists>fields. out (print_result_line runner_countries result_skipped world0)
        = [Fired False (Some INFO) (LogSeedResult fields)]"
    by auto
  from 1 2 3 show ?thesis by blast
qed

text \<open>
  Claim C7. \<open>_build_run_model_result\<close> returns a result exactly when the base builder
  returns one and the context holds the loaded \<open>agate_table\<close> result, and the result
  returned is then the base builder's with one change: its \<open>agate_table\<close> is the loaded
  table. Status, message, execution time and node are those of the base result. An
  exception of the base builder, or of reading \<open>table\<close> from a missing load result,
  propagates instead.
\<close>

theorem build_run_model_result_attaches:
  "(build_run_model_result super_build model ctx = Inr r) =
     (\<exists>base agate_result.
         super_build model ctx = Inr base
       \<and> load_result ctx ''agate_table'' = Some agate_result
       \<and> r = base\<lparr>agate_table := Some (table agate_result)\<rparr>
       \<and> agate_table r = Some (table agate_result)
       \<and> status r = status base
       \<and> message r = message base
       \<and> execution_time r = execution_time base
       \<and> node r = node base)"
  by (auto simp: build_run_model_result_def split: sum.splits option.splits)

theorem build_run_model_result_attaches_witness:
  "build_run_model_result base_build seed_countries loaded_context = Inr result_countries"
  by (rule iffD2 [OF build_run_model_result_attaches])
     (simp add: base_build_def loaded_context_def result_countries_def)

subsection \<open>The task's policies\<close>

text \<open>
  Claim C4, as amended. \<open>raise_on_first_error\<close> is \<open>False\<close> for every seed task, and
  replacing the task's arguments does not change it: continue-on-error is a constant of
  this task, not a value read from its configuration.
\<close>

theorem raise_on_first_error_constant:
  "\<not> raise_on_first_error self
   \<and> raise_on_first_error (self\<lparr>args := a\<rparr>) = raise_on_first_error self"
  by (simp add: raise_on_first_error_def)

theorem raise_on_first_error_constant_witness:
  "\<not> raise_on_first_error task_ready
   \<and> raise_on_first_error (task_ready\<lparr>args := plain_args\<lparr>arg_fail_fast := True\<rparr>\<rparr>)
       = raise_on_first_error task_ready"
  using raise_on_first_error_constant [of task_ready "plain_args\<lparr>arg_fail_fast := True\<rparr>"]
  by simp

text \<open>
  Claim C4 as stated fails: a task whose arguments enable fail-fast still answers
  \<open>False\<close>, so the policy does not follow the configuration.
\<close>

theorem raise_on_first_error_not_configured:
  "arg_fail_fast (args task_fail_fast) \<and> \<not> raise_on_first_error task_fail_fast"
  by (simp add: task_fail_fast_def raise_on_first_error_def)

text \<open>
  Claim C5. \<open>defer_to_manifest\<close> changes nothing: for every adapter and every list of
  selected ids, the task (its arguments, manifest, graph and previous state) and the
  world after the call are those before it.
\<close>

theorem defer_to_manifest_noop:
  "defer_to_manifest self adapter selected_uids w = (self, w)"
  by (simp add: defer_to_manifest_def)

theorem defer_to_manifest_noop_witness:
  "defer_to_manifest task_ready (Adapter ''postgres'') [''seed.shop.currencies''] world0
     = (task_ready, world0)"
  using defer_to_manifest_noop
    [of task_ready "Adapter ''postgres''" "[''seed.shop.currencies'']" world0]
  by simp

subsection \<open>The sampling hook\<close>

lemma show_table_Some:
  "agate_table r = Some t \<Longrightarrow>
   show_table rnd r w =
     Inr \<lparr>out = out w @ sample_block (sample_header r)
              (render_table 10 None (order_by (map rnd [draws w ..< draws w + length (rows t)]) t)),
          draws = draws w + length (rows t)\<rparr>"
  by (simp add: show_table_def Let_def fire_event_def print_table_def sample_block_def)

lemma show_table_None: "agate_table r = None \<Longrightarrow> show_table rnd r w = Inl AttributeError"
  by (simp add: show_table_def)













text \<open>
  Claim C10. \<open>show_table\<close> raises AttributeError exactly when the result carries no
  table, whatever the result's status. \<open>show_tables\<close> calls it for every result whose
  status is not \<open>Error\<close>, so it raises exactly when some result that is not \<open>Error\<close>
  (a skipped one, say) carries no table, and returns normally otherwise; an \<open>Error\<close>
  result without a table is passed over.
\<close>

theorem show_tables_raises_without_payload:
  "(show_table rnd result w = Inl AttributeError) = (agate_table result = None)
   \<and> fst (show_tables rnd results w) =
       (if \<exists>r\<in>set results. status r \<noteq> Error \<and> agate_table r = None
        then Some AttributeError else None)"
proof
  show "(show_table rnd result w = Inl AttributeError) = (agate_table result = None)"
    by (simp add: show_table_def Let_def split: option.splits)
  show "fst (show_tables rnd results w) =
       (if \<exists>r\<in>set results. status r \<noteq> Error \<and> agate_table r = None
        then Some AttributeError else None)"
  proof (induction results arbitrary: w)
    case Nil
    then show ?case by simp
  next
    case (Cons r results)
    show ?case
    proof (cases "status r = Error")
      case True
      with Cons show ?thesis by simp
    next
      case False
      show ?thesis
      proof (cases "agate_table r")
        case None
        then have "show_table rnd r w = Inl AttributeError" by (rule show_table_None)
        with False None show ?thesis by auto
      next
        case (Some t)
        from show_table_Some [OF Some] obtain w1 where "show_table rnd r w = Inr w1" by blast
        with False Some Cons.IH [of w1] show ?thesis by simp
      qed
    qed
  qed
qed

theorem show_tables_raises_without_payload_witness:
  "fst (show_tables rnd0 [result_countries, result_skipped] world0) = Some AttributeError
   \<and> fst (show_tables rnd0 [result_countries, result_failed] world0) = None
   \<and> show_table rnd0 result_skipped world0 = Inl AttributeError"
  using show_tables_raises_without_payload
          [of rnd0 result_skipped world0 "[result_countries, result_skipped]"]
        show_tables_raises_without_payload
          [of rnd0 result_skipped world0 "[result_countries, result_failed]"]
  by (simp add: result_countries_def result_skipped_def result_failed_def)

subsection \<open>The end of the run\<close>

text \<open>The three counts of the summary cover the results: every result is counted once.\<close>

lemma run_summary_counts:
  "n_success (run_summary results) + n_error (run_summary results)
     + n_skipped (run_summary results) = length results"
proof (induction results)
  case Nil
  then show ?case by (simp add: run_summary_def)
next
  case (Cons r results)
  then show ?case by (cases "status r") (simp_all add: run_summary_def)
qed







end
